theory Spec2Isabelle
  imports Complex_Main "HOL-Library.Word"
begin

section \<open>Values of the Qt library that the program handles\<close>

text \<open>
  A \<open>QByteArray\<close> is a list of bytes, a \<open>QString\<close> a list of characters. The C++ type
  \<open>int\<close> is 32 bits wide on every platform Qt supports and is modelled as a 32-bit word read
  in two's complement by \<open>sint\<close>; \<open>quint16\<close> is a 16-bit word.
\<close>

type_synonym QByteArray = "char list"
type_synonym QString = "char list"
type_synonym cint = "32 word"
type_synonym quint16 = "16 word"

text \<open>\<open>constexpr char kMessageDelimiter = '\n'\<close> (both translation units).\<close>

definition kMessageDelimiter :: char where
  "kMessageDelimiter = CHR 0x0A"

text \<open>\<open>QByteArray::contains(char)\<close>, \<open>indexOf(char)\<close>, \<open>left(len)\<close> and \<open>remove(pos, len)\<close>.\<close>

definition QByteArray_contains :: "QByteArray \<Rightarrow> char \<Rightarrow> bool" where
  "QByteArray_contains ba ch = (ch \<in> set ba)"

definition QByteArray_indexOf :: "QByteArray \<Rightarrow> char \<Rightarrow> int" where
  "QByteArray_indexOf ba ch =
     (if ch \<in> set ba then int (length (takeWhile (\<lambda>b. b \<noteq> ch) ba)) else - 1)"

definition QByteArray_left :: "QByteArray \<Rightarrow> int \<Rightarrow> QByteArray" where
  "QByteArray_left ba len = take (nat len) ba"

definition QByteArray_remove :: "QByteArray \<Rightarrow> int \<Rightarrow> int \<Rightarrow> QByteArray" where
  "QByteArray_remove ba pos len = take (nat pos) ba @ drop (nat pos + nat len) ba"

text \<open>\<open>QString::arg(int)\<close>: the decimal rendering of a signed 32-bit integer.\<close>

fun decimal :: "nat \<Rightarrow> QString" where
  "decimal n =
     (if n < 10 then [''0123456789'' ! n]
      else decimal (n div 10) @ [''0123456789'' ! (n mod 10)])"

declare decimal.simps [simp del]

definition arg_integer :: "int \<Rightarrow> QString" where
  "arg_integer i = (if i < 0 then CHR ''-'' # decimal (nat (- i)) else decimal (nat i))"

definition arg_int :: "cint \<Rightarrow> QString" where
  "arg_int i = arg_integer (sint i)"

subsection \<open>JSON values\<close>

text \<open>
  \<open>QJsonValue\<close>. A JSON number is an IEEE double in Qt; the program only stores, compares
  and prints such numbers, and every finite double is a real number whose order is the order
  of the reals, so a number is modelled by the real it denotes. A \<open>QJsonObject\<close> is the list
  of its members, at most one per key.
\<close>

datatype QJsonValue =
    JNull
  | JBool bool
  | JDouble real
  | JString QString
  | JArray "QJsonValue list"
  | JObject "(QString \<times> QJsonValue) list"
  | JUndefined

type_synonym QJsonObject = "(QString \<times> QJsonValue) list"

datatype QJsonDocument = DocObject QJsonObject | DocArray "QJsonValue list"

text \<open>\<open>QJsonObject::contains\<close>, the reading \<open>obj[key]\<close> and the writing \<open>obj[key] = v\<close>.\<close>

definition QJsonObject_contains :: "QJsonObject \<Rightarrow> QString \<Rightarrow> bool" where
  "QJsonObject_contains obj key = (map_of obj key \<noteq> None)"

definition QJsonObject_value :: "QJsonObject \<Rightarrow> QString \<Rightarrow> QJsonValue" where
  "QJsonObject_value obj key = (case map_of obj key of None \<Rightarrow> JUndefined | Some v \<Rightarrow> v)"

fun QJsonObject_insert :: "QString \<Rightarrow> QJsonValue \<Rightarrow> QJsonObject \<Rightarrow> QJsonObject" where
  "QJsonObject_insert key v [] = [(key, v)]"
| "QJsonObject_insert key v ((k, w) # obj) =
     (if k = key then (key, v) # obj else (k, w) # QJsonObject_insert key v obj)"

text \<open>\<open>QJsonDocument::object()\<close>: the empty object when the document is an array.\<close>

fun QJsonDocument_object :: "QJsonDocument \<Rightarrow> QJsonObject" where
  "QJsonDocument_object (DocObject obj) = obj"
| "QJsonDocument_object (DocArray xs) = []"

fun QJsonDocument_isObject :: "QJsonDocument \<Rightarrow> bool" where
  "QJsonDocument_isObject (DocObject obj) = True"
| "QJsonDocument_isObject (DocArray xs) = False"

text \<open>
  \<open>QJsonValue::toString()\<close>, \<open>toDouble()\<close> and \<open>toInt()\<close> with their default results: the
  empty string, 0.0 and 0. \<open>toInt\<close> gives the default unless the number is whole and fits
  an \<open>int\<close>.
\<close>

fun toString :: "QJsonValue \<Rightarrow> QString" where
  "toString (JString s) = s"
| "toString v = []"

fun toDouble :: "QJsonValue \<Rightarrow> real" where
  "toDouble (JDouble d) = d"
| "toDouble v = 0"

fun toInt :: "QJsonValue \<Rightarrow> cint" where
  "toInt (JDouble d) =
     (if d = of_int \<lfloor>d\<rfloor> \<and> - (2 ^ 31) \<le> \<lfloor>d\<rfloor> \<and> \<lfloor>d\<rfloor> < 2 ^ 31 then word_of_int \<lfloor>d\<rfloor> else 0)"
| "toInt v = 0"

definition QJsonValue_of_int :: "cint \<Rightarrow> QJsonValue" where
  "QJsonValue_of_int i = JDouble (of_int (sint i))"

subsection \<open>Library functions taken as parameters\<close>

text \<open>
  The program calls these functions of Qt, whose code is not part of the repository:
  \<open>QJsonDocument::toJson(Compact)\<close>, \<open>QJsonDocument::fromJson\<close> (the error string on the
  left when parsing fails), \<open>QString::arg(double)\<close>, and \<open>QRandomGenerator::bounded(lo, hi)\<close>,
  whose first argument here is the number of draws made before.
\<close>

record QtLib =
  toJson :: "QJsonObject \<Rightarrow> QByteArray"
  fromJson :: "QByteArray \<Rightarrow> QString + QJsonDocument"
  arg_double :: "real \<Rightarrow> QString"
  bounded :: "nat \<Rightarrow> int \<Rightarrow> int \<Rightarrow> int"

section \<open>The device side: class Client\<close>

datatype ClientState =
  Disconnected | Connecting | WaitingConfirmation | WaitingStart | Running | Stopped

datatype SocketState =
    UnconnectedState | HostLookupState | ConnectingState | ConnectedState
  | BoundState | ClosingState | ListeningState

datatype timer_name = reconnect_timer | send_timer

text \<open>
  What a slot of \<open>Client\<close> does to the outside, in program order: the signals it emits and
  the calls it makes on its socket and its two single-shot timers.
\<close>

datatype client_effect =
    emit_stateChanged ClientState
  | emit_logMessage QString
  | emit_connected
  | emit_disconnected
  | socket_abort
  | socket_connectToHost QString quint16
  | socket_disconnectFromHost
  | socket_write QByteArray
  | timer_start timer_name int
  | timer_stop timer_name

text \<open>
  The members of \<open>Client\<close>; a member the source spells \<open>x_\<close> is \<open>x'\<close> here, since
  a name cannot end in an underscore. A timer is \<open>Some ms\<close> while it is armed with interval \<open>ms\<close> and
  \<open>None\<close> otherwise. \<open>socket_state\<close> is \<open>socket_->state()\<close>; \<open>draws\<close> counts the calls
  of the random generator; \<open>effects\<close> is the trace of effects so far.
\<close>

record Client =
  host' :: QString
  port' :: quint16
  client_id' :: cint
  state' :: ClientState
  uptime' :: cint
  message_counter' :: cint
  receive_buffer' :: QByteArray
  reconnect_timer' :: "int option"
  send_timer' :: "int option"
  socket_state :: SocketState
  draws :: nat
  effects :: "client_effect list"

definition kReconnectIntervalMs :: int where "kReconnectIntervalMs = 5000"
definition kMinSendIntervalMs :: int where "kMinSendIntervalMs = 10"
definition kMaxSendIntervalMs :: int where "kMaxSendIntervalMs = 100"

text \<open>The constructor: \<open>Client::Client\<close>.\<close>

definition Client_init :: Client where
  "Client_init =
     \<lparr> host' = [], port' = 12345, client_id' = - 1, state' = Disconnected, uptime' = 0,
       message_counter' = 0, receive_buffer' = [], reconnect_timer' = None,
       send_timer' = None, socket_state = UnconnectedState, draws = 0, effects = [] \<rparr>"

definition effect :: "client_effect \<Rightarrow> Client \<Rightarrow> Client" where
  "effect e c = c\<lparr>effects := effects c @ [e]\<rparr>"

definition logMessage :: "QString \<Rightarrow> Client \<Rightarrow> Client" where
  "logMessage msg c = effect (emit_logMessage msg) c"

text \<open>\<open>QTimer::start(ms)\<close> and \<open>QTimer::stop()\<close> on the two timers.\<close>

definition reconnect_timer_start :: "int \<Rightarrow> Client \<Rightarrow> Client" where
  "reconnect_timer_start ms c = effect (timer_start reconnect_timer ms) (c\<lparr>reconnect_timer' := Some ms\<rparr>)"

definition reconnect_timer_stop :: "Client \<Rightarrow> Client" where
  "reconnect_timer_stop c = effect (timer_stop reconnect_timer) (c\<lparr>reconnect_timer' := None\<rparr>)"

definition send_timer_start :: "int \<Rightarrow> Client \<Rightarrow> Client" where
  "send_timer_start ms c = effect (timer_start send_timer ms) (c\<lparr>send_timer' := Some ms\<rparr>)"

definition send_timer_stop :: "Client \<Rightarrow> Client" where
  "send_timer_stop c = effect (timer_stop send_timer) (c\<lparr>send_timer' := None\<rparr>)"

text \<open>
  The calls on the socket. \<open>abort()\<close> leaves the socket unconnected; \<open>connectToHost\<close>
  starts with the host lookup; \<open>disconnectFromHost()\<close> starts closing. The signals the
  socket answers with (\<open>connected\<close>, \<open>disconnected\<close>, \<open>readyRead\<close>, \<open>errorOccurred\<close>) are
  the slots below, run when the signal is delivered.
\<close>

definition Client_socket_abort :: "Client \<Rightarrow> Client" where
  "Client_socket_abort c = effect socket_abort (c\<lparr>socket_state := UnconnectedState\<rparr>)"

definition Client_socket_connectToHost :: "QString \<Rightarrow> quint16 \<Rightarrow> Client \<Rightarrow> Client" where
  "Client_socket_connectToHost h p c =
     effect (socket_connectToHost h p) (c\<lparr>socket_state := HostLookupState\<rparr>)"

definition Client_socket_disconnectFromHost :: "Client \<Rightarrow> Client" where
  "Client_socket_disconnectFromHost c =
     effect socket_disconnectFromHost (c\<lparr>socket_state := ClosingState\<rparr>)"

text \<open>\<open>Client::setState\<close>\<close>

definition setState :: "ClientState \<Rightarrow> Client \<Rightarrow> Client" where
  "setState st c =
     (if state' c \<noteq> st then effect (emit_stateChanged st) (c\<lparr>state' := st\<rparr>) else c)"

text \<open>\<open>Client::connectToServer\<close>\<close>

definition connectToServer :: "QString \<Rightarrow> quint16 \<Rightarrow> Client \<Rightarrow> Client" where
  "connectToServer host port c =
     (let c1 = c\<lparr>host' := host, port' := port\<rparr>;
          c2 = (if socket_state c1 \<noteq> UnconnectedState then Client_socket_abort c1 else c1);
          c3 = setState Connecting c2;
          c4 = logMessage (''Connecting to '' @ host' c3 @ '':'' @ decimal (unat (port' c3)) @ ''...'') c3
      in Client_socket_connectToHost (host' c4) (port' c4) c4)"

text \<open>\<open>Client::disconnect\<close>\<close>

definition disconnect :: "Client \<Rightarrow> Client" where
  "disconnect c =
     (let c1 = reconnect_timer_stop c;
          c2 = send_timer_stop c1;
          c3 = (if socket_state c2 \<noteq> UnconnectedState
                then Client_socket_disconnectFromHost c2 else c2)
      in setState Disconnected c3)"

text \<open>\<open>Client::onConnected\<close>\<close>

definition onConnected :: "Client \<Rightarrow> Client" where
  "onConnected c =
     (let c1 = logMessage ''Connected to server, waiting for confirmation...'' c;
          c2 = setState WaitingConfirmation c1
      in effect emit_connected c2)"

text \<open>\<open>Client::onDisconnected\<close>\<close>

definition onDisconnected :: "Client \<Rightarrow> Client" where
  "onDisconnected c =
     (let c1 = logMessage ''Disconnected from server'' c;
          c2 = send_timer_stop c1;
          c3 = c2\<lparr>client_id' := - 1\<rparr>;
          c4 = (if state' c3 \<noteq> Disconnected then
                  reconnect_timer_start kReconnectIntervalMs
                    (logMessage (''Reconnecting in ''
                       @ decimal (nat (kReconnectIntervalMs div 1000)) @ '' seconds...'') c3)
                else c3)
      in effect emit_disconnected c4)"

text \<open>\<open>Client::onSocketError\<close>; the argument is \<open>socket_->errorString()\<close>.\<close>

definition onSocketError :: "QString \<Rightarrow> Client \<Rightarrow> Client" where
  "onSocketError errorString c =
     (if state' c = Connecting then
        reconnect_timer_start kReconnectIntervalMs
          (logMessage (''Retrying in '' @ decimal (nat (kReconnectIntervalMs div 1000)) @ '' seconds...'')
            (logMessage (''Connection failed: '' @ errorString) c))
      else logMessage (''Socket error: '' @ errorString) c)"

text \<open>\<open>Client::onReconnectTimer\<close>; a single-shot timer is no longer armed when it fires.\<close>

definition onReconnectTimer :: "Client \<Rightarrow> Client" where
  "onReconnectTimer c =
     (let c1 = c\<lparr>reconnect_timer' := None\<rparr>
      in if state' c1 \<noteq> Disconnected then connectToServer (host' c1) (port' c1) c1 else c1)"

text \<open>\<open>Client::scheduleNextSend\<close>\<close>

definition scheduleNextSend :: "QtLib \<Rightarrow> Client \<Rightarrow> Client" where
  "scheduleNextSend qt c =
     (if state' c \<noteq> Running then c
      else let delay = bounded qt (draws c) kMinSendIntervalMs (kMaxSendIntervalMs + 1)
           in send_timer_start delay (c\<lparr>draws := draws c + 1\<rparr>))"

text \<open>\<open>Client::sendMessage\<close>\<close>

definition sendMessage :: "QtLib \<Rightarrow> QJsonObject \<Rightarrow> Client \<Rightarrow> Client" where
  "sendMessage qt message c =
     (if socket_state c \<noteq> ConnectedState then c
      else effect (socket_write (toJson qt message @ [kMessageDelimiter])) c)"

text \<open>\<open>Client::processServerMessage\<close>\<close>

definition processServerMessage :: "QtLib \<Rightarrow> QByteArray \<Rightarrow> Client \<Rightarrow> Client" where
  "processServerMessage qt data c =
     (case fromJson qt data of
        Inl errorString \<Rightarrow> logMessage (''JSON parse error: '' @ errorString) c
      | Inr doc \<Rightarrow>
          (let obj = QJsonDocument_object doc;
               type = toString (QJsonObject_value obj ''type'')
           in if type = ''ConnectionConfirm'' then
                (let c1 = c\<lparr>client_id' := toInt (QJsonObject_value obj ''client_id'')\<rparr>;
                     status = toString (QJsonObject_value obj ''status'');
                     c2 = logMessage (''Connection confirmed. Client ID: '' @ arg_int (client_id' c1)
                                        @ '', Status: '' @ status) c1
                 in setState WaitingStart c2)
              else if type = ''Command'' then
                (let command = toString (QJsonObject_value obj ''command'')
                 in if command = ''start'' then
                      scheduleNextSend qt
                        (setState Running
                          (logMessage ''Received START command, beginning data transmission'' c))
                    else if command = ''stop'' then
                      setState Stopped
                        (send_timer_stop
                          (logMessage ''Received STOP command, stopping data transmission'' c))
                    else c)
              else logMessage (''Unknown message type: '' @ type) c))"

text \<open>
  \<open>Client::onReadyRead\<close>: the bytes of \<open>socket_->readAll()\<close> are appended to the buffer, then
  the loop takes one frame per delimiter off its front.
\<close>

lemma length_remove_frame:
  "ch \<in> set ba \<Longrightarrow> length (QByteArray_remove ba 0 (QByteArray_indexOf ba ch + 1)) < length ba"
  by (cases ba) (auto simp: QByteArray_remove_def QByteArray_indexOf_def)

lemma receive_buffer_processServerMessage [simp]:
  "receive_buffer' (processServerMessage qt data c) = receive_buffer' c"
  by (simp add: processServerMessage_def logMessage_def effect_def setState_def
        scheduleNextSend_def send_timer_start_def send_timer_stop_def Let_def
      split: sum.splits)




section \<open>The collector side: class TcpServer\<close>

text \<open>A \<open>QTcpSocket*\<close> is the identity of the socket object it points to.\<close>

type_synonym socket = nat

text \<open>\<open>struct ClientInfo\<close> (\<open>id_info\<close> is its member \<open>id\<close>), \<open>ClientData\<close>
  (\<open>data_client_id\<close> is its member \<open>client_id\<close>), \<open>ThresholdConfig\<close>.\<close>

record ClientInfo =
  id_info :: cint
  ip_address :: QString
  port :: quint16
  is_connected :: bool
  is_running :: bool

record ClientData =
  data_client_id :: cint
  data_type :: QString
  content :: QJsonObject
  timestamp :: nat

record ThresholdConfig =
  max_latency :: real
  max_packet_loss :: real
  max_cpu_usage :: cint
  max_memory_usage :: cint

text \<open>
  What the program reads from a socket object: its \<open>state()\<close>, \<open>peerAddress().toString()\<close>,
  \<open>peerPort()\<close>, \<open>errorString()\<close>, and the result of \<open>write(data)\<close>.
\<close>

record QTcpSocket =
  state :: SocketState
  peerAddress :: QString
  peerPort :: quint16
  errorString :: QString
  write_result :: "QByteArray \<Rightarrow> int"

text \<open>
  The signals \<open>TcpServer\<close> emits and the calls it makes on its sockets and on its
  \<open>QTcpServer\<close>, in program order.
\<close>

datatype server_effect =
    sig_clientConnected ClientInfo
  | sig_clientDisconnected cint
  | sig_clientStatusChanged cint bool
  | sig_dataReceived ClientData
  | sig_logMessage QString
  | sig_serverStarted
  | sig_serverStopped
  | call_abort socket
  | call_deleteLater socket
  | call_write socket QByteArray
  | call_close

text \<open>
  The members of \<open>TcpServer\<close>: the three \<open>QMap\<close>s, the counter and the thresholds;
  \<open>listening\<close> is \<open>server_->isListening()\<close>, \<open>sockets\<close> the socket objects, \<open>clock\<close> the
  value of \<open>QDateTime::currentDateTime()\<close>, \<open>trace\<close> the effects so far.
\<close>

record TcpServer =
  clients' :: "socket \<rightharpoonup> ClientInfo"
  client_sockets' :: "cint \<rightharpoonup> socket"
  next_client_id' :: cint
  receive_buffers' :: "socket \<rightharpoonup> QByteArray"
  thresholds' :: ThresholdConfig
  listening :: bool
  sockets :: "socket \<Rightarrow> QTcpSocket"
  clock :: nat
  trace :: "server_effect list"

text \<open>\<open>static constexpr int kMaxBufferSize = 1024 * 1024\<close>\<close>

definition kMaxBufferSize :: int where
  "kMaxBufferSize = 1024 * 1024"

text \<open>The constructor, with the default member initialisers of \<open>ThresholdConfig\<close>.\<close>

definition ThresholdConfig_default :: ThresholdConfig where
  "ThresholdConfig_default =
     \<lparr> max_latency = 100, max_packet_loss = 5, max_cpu_usage = 90, max_memory_usage = 90 \<rparr>"

definition TcpServer_init :: "(socket \<Rightarrow> QTcpSocket) \<Rightarrow> TcpServer" where
  "TcpServer_init socks =
     \<lparr> clients' = Map.empty, client_sockets' = Map.empty, next_client_id' = 1,
       receive_buffers' = Map.empty, thresholds' = ThresholdConfig_default, listening = False,
       sockets = socks, clock = 0, trace = [] \<rparr>"

definition does :: "server_effect \<Rightarrow> TcpServer \<Rightarrow> TcpServer" where
  "does e s = s\<lparr>trace := trace s @ [e]\<rparr>"

text \<open>
  \<open>QAbstractSocket::abort()\<close> closes the socket at once. The signal \<open>disconnected\<close> that
  the socket answers with is the slot \<open>onClientDisconnected\<close> below, run as a step of its
  own; it is not part of the slot that called \<open>abort()\<close>.
\<close>

definition TcpServer_socket_abort :: "socket \<Rightarrow> TcpServer \<Rightarrow> TcpServer" where
  "TcpServer_socket_abort sock s =
     does (call_abort sock) (s\<lparr>sockets := (sockets s)(sock := (sockets s sock)\<lparr>state := UnconnectedState\<rparr>)\<rparr>)"

text \<open>
  The value-initialised \<open>ClientInfo\<close> that \<open>clients_[socket]\<close> inserts for a missing key,
  and the two reads \<open>clients_[socket]\<close> and \<open>receive_buffers_[socket]\<close>.
\<close>

definition ClientInfo_default :: ClientInfo where
  "ClientInfo_default =
     \<lparr> id_info = 0, ip_address = [], port = 0, is_connected = False, is_running = False \<rparr>"

definition client_at :: "TcpServer \<Rightarrow> socket \<Rightarrow> ClientInfo" where
  "client_at s sock = (case clients' s sock of None \<Rightarrow> ClientInfo_default | Some info \<Rightarrow> info)"

definition buffer_at :: "TcpServer \<Rightarrow> socket \<Rightarrow> QByteArray" where
  "buffer_at s sock = (case receive_buffers' s sock of None \<Rightarrow> [] | Some b \<Rightarrow> b)"

text \<open>\<open>TcpServer::getThresholds\<close> and \<open>setThresholds\<close>: a copy taken, or stored, under the mutex.\<close>

definition getThresholds :: "TcpServer \<Rightarrow> ThresholdConfig" where
  "getThresholds s = thresholds' s"

definition setThresholds :: "ThresholdConfig \<Rightarrow> TcpServer \<Rightarrow> TcpServer" where
  "setThresholds config s = s\<lparr>thresholds' := config\<rparr>"

text \<open>
  \<open>TcpServer::generateClientId\<close>: \<open>return next_client_id_++\<close>. C++ leaves the increment of
  \<open>INT_MAX\<close> undefined; the model takes the two's complement wrap-around of the machine's
  addition.
\<close>

definition generateClientId :: "TcpServer \<Rightarrow> cint \<times> TcpServer" where
  "generateClientId s = (next_client_id' s, s\<lparr>next_client_id' := next_client_id' s + 1\<rparr>)"

text \<open>\<open>TcpServer::sendToClient\<close>\<close>

definition sendToClient :: "QtLib \<Rightarrow> socket \<Rightarrow> QJsonObject \<Rightarrow> TcpServer \<Rightarrow> TcpServer" where
  "sendToClient qt sock message s =
     (if state (sockets s sock) \<noteq> ConnectedState then s
      else
        (let data = toJson qt message @ [kMessageDelimiter];
             bytes_written = write_result (sockets s sock) data;
             s1 = does (call_write sock data) s
         in if bytes_written = - 1 then
              does (sig_logMessage (''Write error: '' @ errorString (sockets s1 sock))) s1
            else if bytes_written \<noteq> int (length data) then
              does (sig_logMessage (''Partial write: '' @ arg_integer bytes_written @ ''/''
                                      @ arg_integer (int (length data)) @ '' bytes'')) s1
            else s1))"

text \<open>\<open>TcpServer::checkThresholds\<close>; \<open>threshold_warnings\<close> is its local list \<open>warnings\<close>.\<close>

definition threshold_warnings :: "QtLib \<Rightarrow> ThresholdConfig \<Rightarrow> QJsonObject \<Rightarrow> QString list" where
  "threshold_warnings qt config data =
     (let type = toString (QJsonObject_value data ''type'')
      in if type = ''NetworkMetrics'' then
           (if QJsonObject_contains data ''latency''
               \<and> toDouble (QJsonObject_value data ''latency'') > max_latency config
            then [''High latency: '' @ arg_double qt (toDouble (QJsonObject_value data ''latency'')) @ ''ms'']
            else [])
           @ (if QJsonObject_contains data ''packet_loss''
                 \<and> toDouble (QJsonObject_value data ''packet_loss'') > max_packet_loss config
              then [''High packet loss: ''
                      @ arg_double qt (toDouble (QJsonObject_value data ''packet_loss'')) @ ''%'']
              else [])
         else if type = ''DeviceStatus'' then
           (if QJsonObject_contains data ''cpu_usage''
               \<and> sint (toInt (QJsonObject_value data ''cpu_usage'')) > sint (max_cpu_usage config)
            then [''High CPU usage: '' @ arg_int (toInt (QJsonObject_value data ''cpu_usage'')) @ ''%'']
            else [])
           @ (if QJsonObject_contains data ''memory_usage''
                 \<and> sint (toInt (QJsonObject_value data ''memory_usage'')) > sint (max_memory_usage config)
              then [''High memory usage: ''
                      @ arg_int (toInt (QJsonObject_value data ''memory_usage'')) @ ''%'']
              else [])
         else [])"

definition checkThresholds :: "QtLib \<Rightarrow> cint \<Rightarrow> QJsonObject \<Rightarrow> TcpServer \<Rightarrow> TcpServer" where
  "checkThresholds qt client_id data s =
     (let config = getThresholds s
      in foldl (\<lambda>s warning.
                  does (sig_logMessage (''WARNING [Client '' @ arg_int client_id @ '']: '' @ warning)) s)
           s (threshold_warnings qt config data))"

text \<open>\<open>TcpServer::processClientData\<close>\<close>

definition processClientData :: "QtLib \<Rightarrow> cint \<Rightarrow> QByteArray \<Rightarrow> TcpServer \<Rightarrow> TcpServer" where
  "processClientData qt client_id data s =
     (case fromJson qt data of
        Inl parse_error \<Rightarrow>
          does (sig_logMessage (''JSON parse error from client '' @ arg_int client_id @ '': ''
                                  @ parse_error)) s
      | Inr doc \<Rightarrow>
          if \<not> QJsonDocument_isObject doc then
            does (sig_logMessage (''Invalid JSON from client '' @ arg_int client_id
                                    @ '': not an object'')) s
          else
            (let obj = QJsonDocument_object doc;
                 type = toString (QJsonObject_value obj ''type'');
                 client_data = \<lparr> data_client_id = client_id, data_type = type, content = obj,
                                 timestamp = clock s \<rparr>
             in checkThresholds qt client_id obj (does (sig_dataReceived client_data) s)))"

text \<open>
  \<open>TcpServer::onReadyRead\<close> for the socket that sent the signal and the bytes of its
  \<open>readAll()\<close>: \<open>appendToBuffer\<close> is the statement that appends them, \<open>TcpServer_readLoop\<close>
  the loop over the complete frames.
\<close>

definition appendToBuffer :: "socket \<Rightarrow> QByteArray \<Rightarrow> TcpServer \<Rightarrow> TcpServer" where
  "appendToBuffer sock readAll s =
     s\<lparr>receive_buffers' := (receive_buffers' s)(sock \<mapsto> buffer_at s sock @ readAll)\<rparr>"

lemma receive_buffers_does [simp]: "receive_buffers' (does e s) = receive_buffers' s"
  by (simp add: does_def)

lemma receive_buffers_foldl_does [simp]:
  "receive_buffers' (foldl (\<lambda>s w. does (f w) s) s ws) = receive_buffers' s"
  by (induction ws arbitrary: s) simp_all

lemma receive_buffers_checkThresholds [simp]:
  "receive_buffers' (checkThresholds qt client_id data s) = receive_buffers' s"
  by (simp add: checkThresholds_def)

lemma receive_buffers_processClientData [simp]:
  "receive_buffers' (processClientData qt client_id data s) = receive_buffers' s"
  by (simp add: processClientData_def Let_def split: sum.splits)

lemma buffer_at_processClientData [simp]:
  "buffer_at (processClientData qt client_id data s) sock = buffer_at s sock"
  by (simp add: buffer_at_def)

function TcpServer_readLoop :: "QtLib \<Rightarrow> socket \<Rightarrow> cint \<Rightarrow> TcpServer \<Rightarrow> TcpServer" where
  "TcpServer_readLoop qt sock client_id s =
     (if QByteArray_contains (buffer_at s sock) kMessageDelimiter then
        (let delimiter_pos = QByteArray_indexOf (buffer_at s sock) kMessageDelimiter;
             message = QByteArray_left (buffer_at s sock) delimiter_pos;
             s1 = s\<lparr>receive_buffers' := (receive_buffers' s)
                       (sock \<mapsto> QByteArray_remove (buffer_at s sock) 0 (delimiter_pos + 1))\<rparr>
         in TcpServer_readLoop qt sock client_id
              (if message \<noteq> [] then processClientData qt client_id message s1 else s1))
      else s)"
  by pat_completeness auto
termination
proof (relation "measure (\<lambda>(qt, sock, client_id, s). length (buffer_at s sock))")
  show "wf (measure (\<lambda>(qt, sock, client_id, s). length (buffer_at s sock)))"
    by simp
next
  fix qt :: QtLib and sock :: socket and client_id :: cint and s :: TcpServer
    and delimiter_pos message s1
  assume c: "QByteArray_contains (buffer_at s sock) kMessageDelimiter"
    and d: "delimiter_pos = QByteArray_indexOf (buffer_at s sock) kMessageDelimiter"
    and s1: "s1 = s\<lparr>receive_buffers' := (receive_buffers' s)
                       (sock \<mapsto> QByteArray_remove (buffer_at s sock) 0 (delimiter_pos + 1))\<rparr>"
  have "buffer_at s1 sock = QByteArray_remove (buffer_at s sock) 0 (delimiter_pos + 1)"
    by (simp add: s1 buffer_at_def)
  moreover have "length (QByteArray_remove (buffer_at s sock) 0 (delimiter_pos + 1))
                   < length (buffer_at s sock)"
    using c by (simp add: d QByteArray_contains_def length_remove_frame)
  ultimately show "((qt, sock, client_id,
           if message \<noteq> [] then processClientData qt client_id message s1 else s1),
          qt, sock, client_id, s)
         \<in> measure (\<lambda>(qt, sock, client_id, s). length (buffer_at s sock))"
    by simp
qed

declare TcpServer_readLoop.simps [simp del]

definition TcpServer_onReadyRead :: "QtLib \<Rightarrow> socket \<Rightarrow> QByteArray \<Rightarrow> TcpServer \<Rightarrow> TcpServer" where
  "TcpServer_onReadyRead qt sock readAll s =
     (if clients' s sock = None then s
      else
        (let client_id = id_info (client_at s sock);
             s1 = appendToBuffer sock readAll s
         in if int (length (buffer_at s1 sock)) > kMaxBufferSize then
              TcpServer_socket_abort sock
                (does (sig_logMessage (''Client '' @ arg_int client_id
                                         @ '': buffer overflow, disconnecting'')) s1)
            else TcpServer_readLoop qt sock client_id s1))"

text \<open>
  \<open>TcpServer::onNewConnection\<close>: \<open>acceptConnection\<close> is the body of its loop, run for each
  pending connection that \<open>nextPendingConnection()\<close> hands out.
\<close>

definition acceptConnection :: "QtLib \<Rightarrow> socket \<Rightarrow> TcpServer \<Rightarrow> TcpServer" where
  "acceptConnection qt sock s =
     (let (new_id, s1) = generateClientId s;
          info = \<lparr> id_info = new_id, ip_address = peerAddress (sockets s1 sock),
                   port = peerPort (sockets s1 sock), is_connected = True, is_running = False \<rparr>;
          s2 = s1\<lparr>clients' := (clients' s1)(sock \<mapsto> info)\<rparr>;
          s3 = s2\<lparr>client_sockets' := (client_sockets' s2)(id_info info \<mapsto> sock)\<rparr>;
          s4 = s3\<lparr>receive_buffers' := (receive_buffers' s3)(sock \<mapsto> [])\<rparr>;
          confirmation =
            QJsonObject_insert ''status'' (JString ''connected'')
              (QJsonObject_insert ''client_id'' (QJsonValue_of_int (id_info info))
                (QJsonObject_insert ''type'' (JString ''ConnectionConfirm'') []));
          s5 = sendToClient qt sock confirmation s4;
          s6 = does (sig_clientConnected info) s5
      in does (sig_logMessage (''Client '' @ arg_int (id_info info) @ '' connected from ''
                                 @ ip_address info @ '':'' @ decimal (unat (port info)))) s6)"

fun onNewConnection :: "QtLib \<Rightarrow> socket list \<Rightarrow> TcpServer \<Rightarrow> TcpServer" where
  "onNewConnection qt [] s = s"
| "onNewConnection qt (sock # pending) s = onNewConnection qt pending (acceptConnection qt sock s)"

text \<open>\<open>TcpServer::onClientDisconnected\<close> for the socket that sent the signal.\<close>

definition onClientDisconnected :: "socket \<Rightarrow> TcpServer \<Rightarrow> TcpServer" where
  "onClientDisconnected sock s =
     (if clients' s sock = None then s
      else
        (let client_id = id_info (client_at s sock);
             s1 = does (sig_clientDisconnected client_id) s;
             s2 = does (sig_logMessage (''Client '' @ arg_int client_id @ '' disconnected'')) s1;
             s3 = s2\<lparr>client_sockets' := (client_sockets' s2)(client_id := None)\<rparr>;
             s4 = s3\<lparr>clients' := (clients' s3)(sock := None)\<rparr>;
             s5 = s4\<lparr>receive_buffers' := (receive_buffers' s4)(sock := None)\<rparr>
         in does (call_deleteLater sock) s5))"

text \<open>\<open>TcpServer::startClient\<close> and \<open>TcpServer::stopClient\<close>\<close>

definition startClient :: "QtLib \<Rightarrow> cint \<Rightarrow> TcpServer \<Rightarrow> TcpServer" where
  "startClient qt client_id s =
     (case client_sockets' s client_id of
        None \<Rightarrow> does (sig_logMessage (''Client '' @ arg_int client_id @ '' not found'')) s
      | Some sock \<Rightarrow>
          (let s1 = s\<lparr>clients' := (clients' s)(sock \<mapsto> (client_at s sock)\<lparr>is_running := True\<rparr>)\<rparr>;
               command =
                 QJsonObject_insert ''command'' (JString ''start'')
                   (QJsonObject_insert ''type'' (JString ''Command'') []);
               s2 = sendToClient qt sock command s1;
               s3 = does (sig_clientStatusChanged client_id True) s2
           in does (sig_logMessage (''Started client '' @ arg_int client_id)) s3))"

definition stopClient :: "QtLib \<Rightarrow> cint \<Rightarrow> TcpServer \<Rightarrow> TcpServer" where
  "stopClient qt client_id s =
     (case client_sockets' s client_id of
        None \<Rightarrow> does (sig_logMessage (''Client '' @ arg_int client_id @ '' not found'')) s
      | Some sock \<Rightarrow>
          (let s1 = s\<lparr>clients' := (clients' s)(sock \<mapsto> (client_at s sock)\<lparr>is_running := False\<rparr>)\<rparr>;
               command =
                 QJsonObject_insert ''command'' (JString ''stop'')
                   (QJsonObject_insert ''type'' (JString ''Command'') []);
               s2 = sendToClient qt sock command s1;
               s3 = does (sig_clientStatusChanged client_id False) s2
           in does (sig_logMessage (''Stopped client '' @ arg_int client_id)) s3))"

text \<open>
  \<open>TcpServer::stopServer\<close>: every registered socket, in the key order of the \<open>QMap\<close>, is
  aborted and scheduled for deletion; then the three maps are cleared.
\<close>

definition stopServer :: "TcpServer \<Rightarrow> TcpServer" where
  "stopServer s =
     (let s1 = foldl (\<lambda>s sock. does (call_deleteLater sock) (TcpServer_socket_abort sock s))
                 s (sorted_list_of_set (dom (clients' s)));
          s2 = s1\<lparr>clients' := Map.empty, client_sockets' := Map.empty,
                   receive_buffers' := Map.empty\<rparr>
      in if listening s2 then
           does sig_serverStopped
             (does (sig_logMessage ''Server stopped'') (does call_close (s2\<lparr>listening := False\<rparr>)))
         else s2)"

section \<open>Runs of the two sides\<close>

text \<open>
  The wire form of a message, as \<open>sendToClient\<close> and \<open>sendMessage\<close> build it: the compact
  JSON text followed by the delimiter.
\<close>

definition encode :: "QtLib \<Rightarrow> QJsonObject \<Rightarrow> QByteArray" where
  "encode qt message = toJson qt message @ [kMessageDelimiter]"







text \<open>
  The slots of \<open>TcpServer\<close> that touch the registry, as the events of a run, and the run of
  a list of events in order.
\<close>

datatype server_event =
    NewConnection "socket list"
  | ClientDisconnected socket
  | ReadyRead socket QByteArray
  | StartClient cint
  | StopClient cint
  | StopServer



text \<open>The number of connections a list of events accepts, and the IDs a trace handed out.\<close>

fun accepted :: "server_event list \<Rightarrow> nat" where
  "accepted [] = 0"
| "accepted (NewConnection pending # events) = length pending + accepted events"
| "accepted (ev # events) = accepted events"

fun issued_ids :: "server_effect list \<Rightarrow> cint list" where
  "issued_ids [] = []"
| "issued_ids (sig_clientConnected info # es) = id_info info # issued_ids es"
| "issued_ids (e # es) = issued_ids es"

text \<open>The messages that a trace reported with the signal \<open>dataReceived\<close>, in order.\<close>

fun received_contents :: "server_effect list \<Rightarrow> QJsonObject list" where
  "received_contents [] = []"
| "received_contents (sig_dataReceived d # es) = content d # received_contents es"
| "received_contents (e # es) = received_contents es"

text \<open>
  A device that connects and disconnects \<open>n\<close> times in a row, always as the socket object
  \<open>sock\<close>.
\<close>

definition churn :: "socket \<Rightarrow> nat \<Rightarrow> server_event list" where
  "churn sock n = concat (replicate n [NewConnection [sock], ClientDisconnected sock])"





section \<open>A concrete instance of the library parameters\<close>

text \<open>
  The theorems below hold for every value of the library parameters. To run them on
  concrete messages, \<open>QtLib_sample\<close> writes a flat object of strings and whole numbers as
  compact JSON text, member by member in list order, and reads back exactly the texts of
  \<open>sample_messages\<close>; every other text is a parse error.
\<close>

definition quoted :: "QString \<Rightarrow> QByteArray" where
  "quoted s = CHR 0x22 # s @ [CHR 0x22]"

fun member_text :: "QString \<times> QJsonValue \<Rightarrow> QByteArray" where
  "member_text (k, JString s) = quoted k @ '':'' @ quoted s"
| "member_text (k, JDouble d) = quoted k @ '':'' @ arg_integer \<lfloor>d\<rfloor>"
| "member_text (k, JBool b) = quoted k @ '':'' @ (if b then ''true'' else ''false'')"
| "member_text (k, v) = quoted k @ '':null''"

fun comma_separated :: "QByteArray list \<Rightarrow> QByteArray" where
  "comma_separated [] = []"
| "comma_separated [x] = x"
| "comma_separated (x # y # ys) = x @ '','' @ comma_separated (y # ys)"

definition sample_toJson :: "QJsonObject \<Rightarrow> QByteArray" where
  "sample_toJson obj = ''{'' @ comma_separated (map member_text obj) @ ''}''"

definition msg_confirm :: "cint \<Rightarrow> QJsonObject" where
  "msg_confirm i =
     [(''type'', JString ''ConnectionConfirm''), (''client_id'', QJsonValue_of_int i),
      (''status'', JString ''connected'')]"

definition msg_command :: "QString \<Rightarrow> QJsonObject" where
  "msg_command cmd = [(''type'', JString ''Command''), (''command'', JString cmd)]"

definition msg_metrics :: "real \<Rightarrow> real \<Rightarrow> real \<Rightarrow> QJsonObject" where
  "msg_metrics bandwidth latency packet_loss =
     [(''type'', JString ''NetworkMetrics''), (''bandwidth'', JDouble bandwidth),
      (''latency'', JDouble latency), (''packet_loss'', JDouble packet_loss)]"

definition msg_log :: "QString \<Rightarrow> QString \<Rightarrow> QJsonObject" where
  "msg_log message severity =
     [(''type'', JString ''Log''), (''message'', JString message), (''severity'', JString severity)]"

text \<open>A text of 1 MiB, for a Log message longer than the receive buffer's limit.\<close>

definition big_text :: QString where
  "big_text = replicate 1048576 (CHR ''a'')"

definition sample_messages :: "QJsonObject list" where
  "sample_messages =
     [msg_confirm 1, msg_command ''start'', msg_command ''stop'', msg_command ''pause'',
      msg_metrics 100 150 1, msg_metrics 100 50 1, msg_metrics 100 150 7,
      msg_log ''DHCP lease renewed'' ''INFO'', msg_log big_text ''INFO'']"

definition sample_fromJson :: "QByteArray \<Rightarrow> QString + QJsonDocument" where
  "sample_fromJson text =
     (case find (\<lambda>obj. sample_toJson obj = text) sample_messages of
        None \<Rightarrow> Inl ''illegal value''
      | Some obj \<Rightarrow> Inr (DocObject obj))"

definition QtLib_sample :: QtLib where
  "QtLib_sample =
     \<lparr> toJson = sample_toJson, fromJson = sample_fromJson,
       arg_double = (\<lambda>d. arg_integer \<lfloor>d\<rfloor>),
       bounded = (\<lambda>n lo hi. lo + int n mod (hi - lo)) \<rparr>"

text \<open>
  Socket objects that are connected and accept every write in full, and a collector that
  has accepted one connection, on the socket object 1.
\<close>

definition sample_sockets :: "socket \<Rightarrow> QTcpSocket" where
  "sample_sockets sock =
     \<lparr> state = ConnectedState, peerAddress = ''127.0.0.1'', peerPort = 50000,
       errorString = [], write_result = (\<lambda>data. int (length data)) \<rparr>"

definition TcpServer_one_client_sample :: TcpServer where
  "TcpServer_one_client_sample =
     onNewConnection QtLib_sample [1] (TcpServer_init sample_sockets)"

text \<open>The same collector after the socket object 1 has left the connected state.\<close>

definition TcpServer_closed_socket_sample :: TcpServer where
  "TcpServer_closed_socket_sample =
     TcpServer_one_client_sample
       \<lparr>sockets := (sockets TcpServer_one_client_sample)
                    (1 := (sample_sockets 1)\<lparr>state := UnconnectedState\<rparr>)\<rparr>"

text \<open>
  A device that has connected to \<open>localhost:12345\<close>, was confirmed with the ID 1 and was
  told to start.
\<close>

definition Client_running_sample :: Client where
  "Client_running_sample =
     processServerMessage QtLib_sample (sample_toJson (msg_command ''start''))
       (processServerMessage QtLib_sample (sample_toJson (msg_confirm 1))
         (onConnected (connectToServer ''localhost'' 12345 Client_init)))"




section \<open>The device side: what each step leaves in the members\<close>

lemma effect_fields [simp]:
  "host' (effect e c) = host' c" "port' (effect e c) = port' c"
  "client_id' (effect e c) = client_id' c" "state' (effect e c) = state' c"
  "receive_buffer' (effect e c) = receive_buffer' c"
  "reconnect_timer' (effect e c) = reconnect_timer' c" "send_timer' (effect e c) = send_timer' c"
  "socket_state (effect e c) = socket_state c" "draws (effect e c) = draws c"
  "effects (effect e c) = effects c @ [e]"
  by (simp_all add: effect_def)

lemma logMessage_fields [simp]:
  "host' (logMessage m c) = host' c" "port' (logMessage m c) = port' c"
  "client_id' (logMessage m c) = client_id' c" "state' (logMessage m c) = state' c"
  "receive_buffer' (logMessage m c) = receive_buffer' c"
  "reconnect_timer' (logMessage m c) = reconnect_timer' c"
  "send_timer' (logMessage m c) = send_timer' c"
  "socket_state (logMessage m c) = socket_state c" "draws (logMessage m c) = draws c"
  "effects (logMessage m c) = effects c @ [emit_logMessage m]"
  by (simp_all add: logMessage_def)

lemma setState_fields [simp]:
  "host' (setState st c) = host' c" "port' (setState st c) = port' c"
  "client_id' (setState st c) = client_id' c" "state' (setState st c) = st"
  "receive_buffer' (setState st c) = receive_buffer' c"
  "reconnect_timer' (setState st c) = reconnect_timer' c"
  "send_timer' (setState st c) = send_timer' c"
  "socket_state (setState st c) = socket_state c" "draws (setState st c) = draws c"
  "effects (setState st c) = effects c @ (if state' c \<noteq> st then [emit_stateChanged st] else [])"
  by (simp_all add: setState_def)

lemma send_timer_stop_fields [simp]:
  "host' (send_timer_stop c) = host' c" "port' (send_timer_stop c) = port' c"
  "client_id' (send_timer_stop c) = client_id' c" "state' (send_timer_stop c) = state' c"
  "receive_buffer' (send_timer_stop c) = receive_buffer' c"
  "reconnect_timer' (send_timer_stop c) = reconnect_timer' c"
  "send_timer' (send_timer_stop c) = None"
  "socket_state (send_timer_stop c) = socket_state c" "draws (send_timer_stop c) = draws c"
  "effects (send_timer_stop c) = effects c @ [timer_stop send_timer]"
  by (simp_all add: send_timer_stop_def)

lemma send_timer_start_fields [simp]:
  "host' (send_timer_start ms c) = host' c" "port' (send_timer_start ms c) = port' c"
  "client_id' (send_timer_start ms c) = client_id' c" "state' (send_timer_start ms c) = state' c"
  "receive_buffer' (send_timer_start ms c) = receive_buffer' c"
  "reconnect_timer' (send_timer_start ms c) = reconnect_timer' c"
  "send_timer' (send_timer_start ms c) = Some ms"
  "socket_state (send_timer_start ms c) = socket_state c" "draws (send_timer_start ms c) = draws c"
  "effects (send_timer_start ms c) = effects c @ [timer_start send_timer ms]"
  by (simp_all add: send_timer_start_def)

lemma reconnect_timer_stop_fields [simp]:
  "host' (reconnect_timer_stop c) = host' c" "port' (reconnect_timer_stop c) = port' c"
  "client_id' (reconnect_timer_stop c) = client_id' c" "state' (reconnect_timer_stop c) = state' c"
  "receive_buffer' (reconnect_timer_stop c) = receive_buffer' c"
  "reconnect_timer' (reconnect_timer_stop c) = None"
  "send_timer' (reconnect_timer_stop c) = send_timer' c"
  "socket_state (reconnect_timer_stop c) = socket_state c" "draws (reconnect_timer_stop c) = draws c"
  "effects (reconnect_timer_stop c) = effects c @ [timer_stop reconnect_timer]"
  by (simp_all add: reconnect_timer_stop_def)

lemma reconnect_timer_start_fields [simp]:
  "host' (reconnect_timer_start ms c) = host' c" "port' (reconnect_timer_start ms c) = port' c"
  "client_id' (reconnect_timer_start ms c) = client_id' c"
  "state' (reconnect_timer_start ms c) = state' c"
  "receive_buffer' (reconnect_timer_start ms c) = receive_buffer' c"
  "reconnect_timer' (reconnect_timer_start ms c) = Some ms"
  "send_timer' (reconnect_timer_start ms c) = send_timer' c"
  "socket_state (reconnect_timer_start ms c) = socket_state c"
  "draws (reconnect_timer_start ms c) = draws c"
  "effects (reconnect_timer_start ms c) = effects c @ [timer_start reconnect_timer ms]"
  by (simp_all add: reconnect_timer_start_def)

lemma Client_socket_abort_fields [simp]:
  "host' (Client_socket_abort c) = host' c" "port' (Client_socket_abort c) = port' c"
  "client_id' (Client_socket_abort c) = client_id' c" "state' (Client_socket_abort c) = state' c"
  "receive_buffer' (Client_socket_abort c) = receive_buffer' c"
  "reconnect_timer' (Client_socket_abort c) = reconnect_timer' c"
  "send_timer' (Client_socket_abort c) = send_timer' c"
  "socket_state (Client_socket_abort c) = UnconnectedState"
  "draws (Client_socket_abort c) = draws c"
  "effects (Client_socket_abort c) = effects c @ [socket_abort]"
  by (simp_all add: Client_socket_abort_def)

lemma Client_socket_connectToHost_fields [simp]:
  "host' (Client_socket_connectToHost h p c) = host' c"
  "port' (Client_socket_connectToHost h p c) = port' c"
  "client_id' (Client_socket_connectToHost h p c) = client_id' c"
  "state' (Client_socket_connectToHost h p c) = state' c"
  "receive_buffer' (Client_socket_connectToHost h p c) = receive_buffer' c"
  "reconnect_timer' (Client_socket_connectToHost h p c) = reconnect_timer' c"
  "send_timer' (Client_socket_connectToHost h p c) = send_timer' c"
  "socket_state (Client_socket_connectToHost h p c) = HostLookupState"
  "draws (Client_socket_connectToHost h p c) = draws c"
  "effects (Client_socket_connectToHost h p c) = effects c @ [socket_connectToHost h p]"
  by (simp_all add: Client_socket_connectToHost_def)

lemma Client_socket_disconnectFromHost_fields [simp]:
  "host' (Client_socket_disconnectFromHost c) = host' c"
  "port' (Client_socket_disconnectFromHost c) = port' c"
  "client_id' (Client_socket_disconnectFromHost c) = client_id' c"
  "state' (Client_socket_disconnectFromHost c) = state' c"
  "receive_buffer' (Client_socket_disconnectFromHost c) = receive_buffer' c"
  "reconnect_timer' (Client_socket_disconnectFromHost c) = reconnect_timer' c"
  "send_timer' (Client_socket_disconnectFromHost c) = send_timer' c"
  "socket_state (Client_socket_disconnectFromHost c) = ClosingState"
  "draws (Client_socket_disconnectFromHost c) = draws c"
  "effects (Client_socket_disconnectFromHost c) = effects c @ [socket_disconnectFromHost]"
  by (simp_all add: Client_socket_disconnectFromHost_def)

lemma processServerMessage_confirm:
  "fromJson qt data = Inr doc \<Longrightarrow>
   toString (QJsonObject_value (QJsonDocument_object doc) ''type'') = ''ConnectionConfirm'' \<Longrightarrow>
   processServerMessage qt data c =
     setState WaitingStart
       (logMessage (''Connection confirmed. Client ID: ''
            @ arg_int (toInt (QJsonObject_value (QJsonDocument_object doc) ''client_id''))
            @ '', Status: '' @ toString (QJsonObject_value (QJsonDocument_object doc) ''status''))
         (c\<lparr>client_id' := toInt (QJsonObject_value (QJsonDocument_object doc) ''client_id'')\<rparr>))"
  by (simp add: processServerMessage_def Let_def)

lemma processServerMessage_start:
  "fromJson qt data = Inr doc \<Longrightarrow>
   toString (QJsonObject_value (QJsonDocument_object doc) ''type'') = ''Command'' \<Longrightarrow>
   toString (QJsonObject_value (QJsonDocument_object doc) ''command'') = ''start'' \<Longrightarrow>
   processServerMessage qt data c =
     scheduleNextSend qt
       (setState Running (logMessage ''Received START command, beginning data transmission'' c))"
  by (simp add: processServerMessage_def Let_def)

lemma processServerMessage_stop:
  "fromJson qt data = Inr doc \<Longrightarrow>
   toString (QJsonObject_value (QJsonDocument_object doc) ''type'') = ''Command'' \<Longrightarrow>
   toString (QJsonObject_value (QJsonDocument_object doc) ''command'') = ''stop'' \<Longrightarrow>
   processServerMessage qt data c =
     setState Stopped
       (send_timer_stop (logMessage ''Received STOP command, stopping data transmission'' c))"
  by (simp add: processServerMessage_def Let_def)

lemma connectToServer_fields [simp]:
  "state' (connectToServer h p c) = Connecting"
  "host' (connectToServer h p c) = h" "port' (connectToServer h p c) = p"
  "draws (connectToServer h p c) = draws c"
  "client_id' (connectToServer h p c) = client_id' c"
  "receive_buffer' (connectToServer h p c) = receive_buffer' c"
  "reconnect_timer' (connectToServer h p c) = reconnect_timer' c"
  "send_timer' (connectToServer h p c) = send_timer' c"
  "socket_state (connectToServer h p c) = HostLookupState"
  by (simp_all add: connectToServer_def Let_def)

lemma onConnected_fields [simp]:
  "state' (onConnected c) = WaitingConfirmation"
  "draws (onConnected c) = draws c"
  "host' (onConnected c) = host' c" "port' (onConnected c) = port' c"
  "client_id' (onConnected c) = client_id' c"
  "receive_buffer' (onConnected c) = receive_buffer' c"
  "reconnect_timer' (onConnected c) = reconnect_timer' c"
  "send_timer' (onConnected c) = send_timer' c"
  "socket_state (onConnected c) = socket_state c"
  by (simp_all add: onConnected_def Let_def)

lemma sample_parse_simps:
  "sample_fromJson (sample_toJson (msg_confirm 1)) = Inr (DocObject (msg_confirm 1))"
  "sample_fromJson (sample_toJson (msg_command ''start'')) = Inr (DocObject (msg_command ''start''))"
  "sample_fromJson (sample_toJson (msg_command ''stop'')) = Inr (DocObject (msg_command ''stop''))"
  "sample_fromJson (sample_toJson (msg_command ''pause'')) = Inr (DocObject (msg_command ''pause''))"
  "sample_fromJson (sample_toJson (msg_metrics 100 150 1)) = Inr (DocObject (msg_metrics 100 150 1))"
  "sample_fromJson (sample_toJson (msg_log ''DHCP lease renewed'' ''INFO''))
     = Inr (DocObject (msg_log ''DHCP lease renewed'' ''INFO''))"
  "sample_fromJson (sample_toJson (msg_log big_text ''INFO'')) = Inr (DocObject (msg_log big_text ''INFO''))"
  by (simp_all add: sample_fromJson_def sample_toJson_def sample_messages_def msg_command_def
      msg_confirm_def msg_metrics_def msg_log_def quoted_def QJsonValue_of_int_def arg_integer_def
      decimal.simps)

lemma decimal_5 [simp]: "decimal 5 = ''5''"
  by (simp add: decimal.simps)

lemma onDisconnected_fields:
  "state' (onDisconnected c) = state' c"
  "client_id' (onDisconnected c) = - 1"
  "send_timer' (onDisconnected c) = None"
  "host' (onDisconnected c) = host' c"
  "port' (onDisconnected c) = port' c"
  "reconnect_timer' (onDisconnected c) =
     (if state' c \<noteq> Disconnected then Some 5000 else reconnect_timer' c)"
  "effects (onDisconnected c) =
     effects c @ [emit_logMessage ''Disconnected from server'', timer_stop send_timer]
       @ (if state' c \<noteq> Disconnected
          then [emit_logMessage ''Reconnecting in 5 seconds...'', timer_start reconnect_timer 5000]
          else [])
       @ [emit_disconnected]"
  by (simp_all add: onDisconnected_def Let_def kReconnectIntervalMs_def)

lemma effects_connectToServer:
  "effects (connectToServer h p c) =
     effects c @ (if socket_state c \<noteq> UnconnectedState then [socket_abort] else [])
       @ (if state' c \<noteq> Connecting then [emit_stateChanged Connecting] else [])
       @ [emit_logMessage (''Connecting to '' @ h @ '':'' @ decimal (unat p) @ ''...''),
          socket_connectToHost h p]"
  by (simp add: connectToServer_def Let_def)

lemma state_disconnect [simp]: "state' (disconnect c) = Disconnected"
  by (simp add: disconnect_def Let_def)

lemma sample_confirm:
  "processServerMessage QtLib_sample (sample_toJson (msg_confirm 1)) c =
     setState WaitingStart
       (logMessage ''Connection confirmed. Client ID: 1, Status: connected'' (c\<lparr>client_id' := 1\<rparr>))"
proof -
  have "fromJson QtLib_sample (sample_toJson (msg_confirm 1)) = Inr (DocObject (msg_confirm 1))"
    by (simp add: QtLib_sample_def sample_parse_simps)
  from processServerMessage_confirm [OF this] show ?thesis
    by (simp add: msg_confirm_def QJsonObject_value_def QJsonValue_of_int_def arg_int_def
        arg_integer_def decimal.simps)
qed

lemma sample_start:
  "processServerMessage QtLib_sample (sample_toJson (msg_command ''start'')) c =
     scheduleNextSend QtLib_sample
       (setState Running (logMessage ''Received START command, beginning data transmission'' c))"
proof -
  have "fromJson QtLib_sample (sample_toJson (msg_command ''start''))
          = Inr (DocObject (msg_command ''start''))"
    by (simp add: QtLib_sample_def sample_parse_simps)
  from processServerMessage_start [OF this] show ?thesis
    by (simp add: msg_command_def QJsonObject_value_def)
qed

lemma sample_stop:
  "processServerMessage QtLib_sample (sample_toJson (msg_command ''stop'')) c =
     setState Stopped
       (send_timer_stop (logMessage ''Received STOP command, stopping data transmission'' c))"
proof -
  have "fromJson QtLib_sample (sample_toJson (msg_command ''stop''))
          = Inr (DocObject (msg_command ''stop''))"
    by (simp add: QtLib_sample_def sample_parse_simps)
  from processServerMessage_stop [OF this] show ?thesis
    by (simp add: msg_command_def QJsonObject_value_def)
qed

lemma QtLib_sample_fields:
  "toJson QtLib_sample = sample_toJson"
  "fromJson QtLib_sample = sample_fromJson"
  "arg_double QtLib_sample d = arg_integer \<lfloor>d\<rfloor>"
  "bounded QtLib_sample n lo hi = lo + int n mod (hi - lo)"
  by (simp_all add: QtLib_sample_def)

lemma Client_running_sample_fields:
  "state' Client_running_sample = Running"
  "host' Client_running_sample = ''localhost''"
  "port' Client_running_sample = 12345"
  "client_id' Client_running_sample = 1"
  "send_timer' Client_running_sample = Some 10"
  by (simp_all add: Client_running_sample_def sample_confirm sample_start scheduleNextSend_def
      Let_def QtLib_sample_fields Client_init_def kMinSendIntervalMs_def kMaxSendIntervalMs_def)

section \<open>The device state machine\<close>

text \<open>
  Claim C9. Starting from Disconnected, the events connect, transport connected, receive
  ConnectionConfirm, receive Command(start) take the device through Connecting,
  WaitingConfirmation and WaitingStart into Running, the confirmation's ID being stored
  and the send timer armed; a Command(stop) that follows ends in Stopped and stops the
  send timer. The received bytes are any that the JSON parser reads as these messages.
\<close>

theorem C9_handshake_reaches_Running_then_Stopped:
  assumes "state' c0 = Disconnected"
    and c: "fromJson qt confirm = Inr (DocObject cobj)"
      "toString (QJsonObject_value cobj ''type'') = ''ConnectionConfirm''"
    and s: "fromJson qt start = Inr (DocObject sobj)"
      "toString (QJsonObject_value sobj ''type'') = ''Command''"
      "toString (QJsonObject_value sobj ''command'') = ''start''"
    and t: "fromJson qt stop = Inr (DocObject tobj)"
      "toString (QJsonObject_value tobj ''type'') = ''Command''"
      "toString (QJsonObject_value tobj ''command'') = ''stop''"
  shows "(let c1 = connectToServer h p c0;
              c2 = onConnected c1;
              c3 = processServerMessage qt confirm c2;
              c4 = processServerMessage qt start c3;
              c5 = processServerMessage qt stop c4
          in state' c1 = Connecting \<and> state' c2 = WaitingConfirmation
             \<and> state' c3 = WaitingStart
             \<and> client_id' c3 = toInt (QJsonObject_value cobj ''client_id'')
             \<and> state' c4 = Running
             \<and> send_timer' c4 = Some (bounded qt (draws c0) kMinSendIntervalMs (kMaxSendIntervalMs + 1))
             \<and> state' c5 = Stopped \<and> send_timer' c5 = None
             \<and> effects c5 = effects c4 @
                  [emit_logMessage ''Received STOP command, stopping data transmission'',
                   timer_stop send_timer, emit_stateChanged Stopped])"
proof -
  have 3: "processServerMessage qt confirm c =
     setState WaitingStart
       (logMessage (''Connection confirmed. Client ID: ''
            @ arg_int (toInt (QJsonObject_value cobj ''client_id''))
            @ '', Status: '' @ toString (QJsonObject_value cobj ''status''))
         (c\<lparr>client_id' := toInt (QJsonObject_value cobj ''client_id'')\<rparr>))" for c
    using processServerMessage_confirm [OF c(1)] c(2) by simp
  have 4: "processServerMessage qt start c = scheduleNextSend qt
       (setState Running (logMessage ''Received START command, beginning data transmission'' c))" for c
    using processServerMessage_start [OF s(1)] s(2,3) by simp
  have 5: "processServerMessage qt stop c = setState Stopped
       (send_timer_stop (logMessage ''Received STOP command, stopping data transmission'' c))" for c
    using processServerMessage_stop [OF t(1)] t(2,3) by simp
  show ?thesis
    unfolding Let_def 3 4 5
    by (simp add: scheduleNextSend_def Let_def)
qed

theorem C9_handshake_witness:
  "state' Client_init = Disconnected
   \<and> state' Client_running_sample = Running
   \<and> client_id' Client_running_sample = 1
   \<and> send_timer' Client_running_sample = Some 10
   \<and> state' (processServerMessage QtLib_sample (sample_toJson (msg_command ''stop''))
        Client_running_sample) = Stopped
   \<and> send_timer' (processServerMessage QtLib_sample (sample_toJson (msg_command ''stop''))
        Client_running_sample) = None"
proof -
  have 0: "state' Client_init = Disconnected"
    by (simp add: Client_init_def)
  have 1: "fromJson QtLib_sample (sample_toJson (msg_confirm 1)) = Inr (DocObject (msg_confirm 1))"
    and 2: "fromJson QtLib_sample (sample_toJson (msg_command ''start''))
              = Inr (DocObject (msg_command ''start''))"
    and 3: "fromJson QtLib_sample (sample_toJson (msg_command ''stop''))
              = Inr (DocObject (msg_command ''stop''))"
    by (simp_all add: QtLib_sample_def sample_parse_simps)
  have 4: "toString (QJsonObject_value (msg_confirm 1) ''type'') = ''ConnectionConfirm''"
    "toString (QJsonObject_value (msg_command ''start'') ''type'') = ''Command''"
    "toString (QJsonObject_value (msg_command ''start'') ''command'') = ''start''"
    "toString (QJsonObject_value (msg_command ''stop'') ''type'') = ''Command''"
    "toString (QJsonObject_value (msg_command ''stop'') ''command'') = ''stop''"
    by (simp_all add: msg_confirm_def msg_command_def QJsonObject_value_def)
  from C9_handshake_reaches_Running_then_Stopped
         [OF 0 1 4(1) 2 4(2) 4(3) 3 4(4) 4(5), of "''localhost''" 12345]
  show ?thesis
    by (simp add: Let_def Client_running_sample_fields sample_stop 0)
qed

text \<open>
  Claim C6. A Command whose value is neither \<open>start\<close> nor \<open>stop\<close> leaves the whole device
  unchanged: the state, the timers and also the effect trace, so no log event is emitted
  for it (the branch for an unknown message type does emit one).
\<close>

theorem C6_unknown_command_changes_nothing_and_logs_nothing:
  "fromJson qt data = Inr doc \<Longrightarrow>
   toString (QJsonObject_value (QJsonDocument_object doc) ''type'') = ''Command'' \<Longrightarrow>
   toString (QJsonObject_value (QJsonDocument_object doc) ''command'') \<noteq> ''start'' \<Longrightarrow>
   toString (QJsonObject_value (QJsonDocument_object doc) ''command'') \<noteq> ''stop'' \<Longrightarrow>
   processServerMessage qt data c = c"
  by (simp add: processServerMessage_def Let_def)

theorem C6_pause_witness:
  "processServerMessage QtLib_sample (sample_toJson (msg_command ''pause'')) Client_running_sample
     = Client_running_sample
   \<and> effects (processServerMessage QtLib_sample (sample_toJson (msg_command ''pause''))
        Client_running_sample) = effects Client_running_sample"
proof -
  have 1: "fromJson QtLib_sample (sample_toJson (msg_command ''pause''))
             = Inr (DocObject (msg_command ''pause''))"
    by (simp add: QtLib_sample_def sample_parse_simps)
  have 2: "toString (QJsonObject_value (QJsonDocument_object (DocObject (msg_command ''pause''))) ''type'') = ''Command''"
    by (simp add: msg_command_def QJsonObject_value_def)
  have 3: "toString (QJsonObject_value (QJsonDocument_object (DocObject (msg_command ''pause''))) ''command'') \<noteq> ''start''"
    by (simp add: msg_command_def QJsonObject_value_def)
  have 4: "toString (QJsonObject_value (QJsonDocument_object (DocObject (msg_command ''pause''))) ''command'') \<noteq> ''stop''"
    by (simp add: msg_command_def QJsonObject_value_def)
  show ?thesis
    by (simp add: C6_unknown_command_changes_nothing_and_logs_nothing [OF 1 2 3 4])
qed

text \<open>
  Claim C3, as the code has it. A disconnect reported by the socket in a state other than
  Disconnected leaves the state as it was (it does not enter Disconnected), resets the
  client ID to -1, stops the send timer and starts the reconnect timer exactly once, with
  5000 ms; when that timer fires the device connects again to the stored host and port
  and enters Connecting. A local \<open>disconnect()\<close> ends in Disconnected.
\<close>

theorem C3_remote_disconnect_keeps_state_and_arms_one_reconnect:
  assumes "state' c \<noteq> Disconnected"
  shows "state' (onDisconnected c) = state' c
     \<and> client_id' (onDisconnected c) = - 1
     \<and> send_timer' (onDisconnected c) = None
     \<and> reconnect_timer' (onDisconnected c) = Some 5000
     \<and> effects (onDisconnected c) = effects c @
          [emit_logMessage ''Disconnected from server'', timer_stop send_timer,
           emit_logMessage ''Reconnecting in 5 seconds...'',
           timer_start reconnect_timer 5000, emit_disconnected]
     \<and> onReconnectTimer (onDisconnected c) =
          connectToServer (host' c) (port' c) ((onDisconnected c)\<lparr>reconnect_timer' := None\<rparr>)
     \<and> state' (onReconnectTimer (onDisconnected c)) = Connecting
     \<and> last (effects (onReconnectTimer (onDisconnected c))) = socket_connectToHost (host' c) (port' c)
     \<and> state' (disconnect c) = Disconnected"
  using assms
  by (simp add: onDisconnected_fields onReconnectTimer_def Let_def effects_connectToServer)

theorem C3_remote_disconnect_witness:
  "state' Client_running_sample \<noteq> Disconnected
   \<and> state' (onDisconnected Client_running_sample) = Running
   \<and> reconnect_timer' (onDisconnected Client_running_sample) = Some 5000
   \<and> last (effects (onReconnectTimer (onDisconnected Client_running_sample)))
       = socket_connectToHost ''localhost'' 12345
   \<and> state' (disconnect Client_running_sample) = Disconnected"
proof -
  have h: "state' Client_running_sample \<noteq> Disconnected"
    by (simp add: Client_running_sample_fields)
  show ?thesis
    using C3_remote_disconnect_keeps_state_and_arms_one_reconnect [OF h] h
    by (simp add: Client_running_sample_fields effects_connectToServer)
qed

text \<open>
  The claim as written fails: the running device of the sample is not in Disconnected
  after the socket reports the disconnect.
\<close>

theorem C3_remote_disconnect_counterexample:
  "state' Client_running_sample \<noteq> Disconnected
   \<and> state' (onDisconnected Client_running_sample) \<noteq> Disconnected"
  by (simp add: onDisconnected_fields Client_running_sample_fields)

section \<open>The collector side: what each step leaves in the members\<close>

lemma does_fields [simp]:
  "clients' (does e s) = clients' s" "client_sockets' (does e s) = client_sockets' s"
  "next_client_id' (does e s) = next_client_id' s"
  "thresholds' (does e s) = thresholds' s" "listening (does e s) = listening s"
  "sockets (does e s) = sockets s" "clock (does e s) = clock s"
  "trace (does e s) = trace s @ [e]"
  by (simp_all add: does_def)

lemma buffer_at_does [simp]: "buffer_at (does e s) sock = buffer_at s sock"
  by (simp add: buffer_at_def)

lemma client_at_does [simp]: "client_at (does e s) sock = client_at s sock"
  by (simp add: client_at_def)

lemma sendToClient_fields [simp]:
  "clients' (sendToClient qt sock m s) = clients' s"
  "client_sockets' (sendToClient qt sock m s) = client_sockets' s"
  "next_client_id' (sendToClient qt sock m s) = next_client_id' s"
  "receive_buffers' (sendToClient qt sock m s) = receive_buffers' s"
  "thresholds' (sendToClient qt sock m s) = thresholds' s"
  "listening (sendToClient qt sock m s) = listening s"
  "sockets (sendToClient qt sock m s) = sockets s"
  "clock (sendToClient qt sock m s) = clock s"
  by (simp_all add: sendToClient_def Let_def)

lemma sendToClient_not_connected:
  "state (sockets s sock) \<noteq> ConnectedState \<Longrightarrow> sendToClient qt sock m s = s"
  by (simp add: sendToClient_def)

lemma sendToClient_connected:
  "state (sockets s sock) = ConnectedState \<Longrightarrow>
   write_result (sockets s sock) (encode qt m) = int (length (encode qt m)) \<Longrightarrow>
   sendToClient qt sock m s = does (call_write sock (encode qt m)) s"
  by (simp add: sendToClient_def Let_def encode_def)

lemma issued_ids_append [simp]: "issued_ids (a @ b) = issued_ids a @ issued_ids b"
  by (induction a rule: issued_ids.induct) simp_all

lemma trace_sendToClient_issued [simp]:
  "issued_ids (trace (sendToClient qt sock m s)) = issued_ids (trace s)"
  by (simp add: sendToClient_def Let_def)

lemma buffer_at_sendToClient [simp]: "buffer_at (sendToClient qt sock m s) x = buffer_at s x"
  by (simp add: buffer_at_def)

lemma client_at_sendToClient [simp]: "client_at (sendToClient qt sock m s) x = client_at s x"
  by (simp add: client_at_def)

lemma acceptConnection_fields [simp]:
  "clients' (acceptConnection qt sock s) =
     (clients' s)(sock \<mapsto> \<lparr> id_info = next_client_id' s, ip_address = peerAddress (sockets s sock),
                               port = peerPort (sockets s sock), is_connected = True,
                               is_running = False \<rparr>)"
  "client_sockets' (acceptConnection qt sock s) = (client_sockets' s)(next_client_id' s \<mapsto> sock)"
  "receive_buffers' (acceptConnection qt sock s) = (receive_buffers' s)(sock \<mapsto> [])"
  "next_client_id' (acceptConnection qt sock s) = next_client_id' s + 1"
  "thresholds' (acceptConnection qt sock s) = thresholds' s"
  "listening (acceptConnection qt sock s) = listening s"
  "sockets (acceptConnection qt sock s) = sockets s"
  "clock (acceptConnection qt sock s) = clock s"
  "issued_ids (trace (acceptConnection qt sock s)) = issued_ids (trace s) @ [next_client_id' s]"
  by (simp_all add: acceptConnection_def generateClientId_def Let_def)

lemma TcpServer_init_fields [simp]:
  "clients' (TcpServer_init socks) = Map.empty"
  "client_sockets' (TcpServer_init socks) = Map.empty"
  "receive_buffers' (TcpServer_init socks) = Map.empty"
  "next_client_id' (TcpServer_init socks) = 1"
  "thresholds' (TcpServer_init socks) = ThresholdConfig_default"
  "listening (TcpServer_init socks) = False"
  "sockets (TcpServer_init socks) = socks"
  "clock (TcpServer_init socks) = 0"
  "trace (TcpServer_init socks) = []"
  by (simp_all add: TcpServer_init_def)

lemma one_client_sample_fields:
  "clients' TcpServer_one_client_sample =
     [1 \<mapsto> \<lparr> id_info = 1, ip_address = ''127.0.0.1'', port = 50000, is_connected = True,
               is_running = False \<rparr>]"
  "client_sockets' TcpServer_one_client_sample = [1 \<mapsto> 1]"
  "receive_buffers' TcpServer_one_client_sample = [1 \<mapsto> []]"
  "next_client_id' TcpServer_one_client_sample = 2"
  "sockets TcpServer_one_client_sample = sample_sockets"
  "thresholds' TcpServer_one_client_sample = ThresholdConfig_default"
  by (simp_all add: TcpServer_one_client_sample_def sample_sockets_def)

lemma closed_socket_sample_fields:
  "clients' TcpServer_closed_socket_sample = clients' TcpServer_one_client_sample"
  "client_sockets' TcpServer_closed_socket_sample = [1 \<mapsto> 1]"
  "state (sockets TcpServer_closed_socket_sample 1) = UnconnectedState"
  "trace TcpServer_closed_socket_sample = trace TcpServer_one_client_sample"
  by (simp_all add: TcpServer_closed_socket_sample_def one_client_sample_fields)

lemma arg_int_small [simp]: "arg_int 1 = ''1''" "arg_int 7 = ''7''"
  by (simp_all add: arg_int_def arg_integer_def decimal.simps)


lemma issued_ids_foldl_log [simp]:
  "issued_ids (trace (foldl (\<lambda>s w. does (sig_logMessage (f w)) s) s ws)) = issued_ids (trace s)"
  by (induction ws arbitrary: s) simp_all

lemma next_foldl_does [simp]:
  "next_client_id' (foldl (\<lambda>s w. does (f w) s) s ws) = next_client_id' s"
  by (induction ws arbitrary: s) simp_all

lemma checkThresholds_counter [simp]:
  "next_client_id' (checkThresholds qt client_id data s) = next_client_id' s"
  "issued_ids (trace (checkThresholds qt client_id data s)) = issued_ids (trace s)"
  by (simp_all add: checkThresholds_def)

lemma processClientData_counter [simp]:
  "next_client_id' (processClientData qt client_id data s) = next_client_id' s"
  "issued_ids (trace (processClientData qt client_id data s)) = issued_ids (trace s)"
  by (simp_all add: processClientData_def Let_def split: sum.splits)

lemma TcpServer_readLoop_counter [simp]:
  "next_client_id' (TcpServer_readLoop qt sock client_id s) = next_client_id' s
   \<and> issued_ids (trace (TcpServer_readLoop qt sock client_id s)) = issued_ids (trace s)"
proof (induction qt sock client_id s rule: TcpServer_readLoop.induct)
  case (1 qt sock client_id s)
  show ?case
  proof (cases "QByteArray_contains (buffer_at s sock) kMessageDelimiter")
    case True
    with 1 show ?thesis
      by (subst (1 2) TcpServer_readLoop.simps) (simp add: Let_def)
  next
    case False
    then show ?thesis
      by (subst (1 2) TcpServer_readLoop.simps) simp
  qed
qed

lemma TcpServer_socket_abort_fields [simp]:
  "clients' (TcpServer_socket_abort sock s) = clients' s"
  "client_sockets' (TcpServer_socket_abort sock s) = client_sockets' s"
  "next_client_id' (TcpServer_socket_abort sock s) = next_client_id' s"
  "receive_buffers' (TcpServer_socket_abort sock s) = receive_buffers' s"
  "thresholds' (TcpServer_socket_abort sock s) = thresholds' s"
  "listening (TcpServer_socket_abort sock s) = listening s"
  "clock (TcpServer_socket_abort sock s) = clock s"
  "trace (TcpServer_socket_abort sock s) = trace s @ [call_abort sock]"
  by (simp_all add: TcpServer_socket_abort_def)

lemma appendToBuffer_fields [simp]:
  "clients' (appendToBuffer sock d s) = clients' s"
  "client_sockets' (appendToBuffer sock d s) = client_sockets' s"
  "next_client_id' (appendToBuffer sock d s) = next_client_id' s"
  "receive_buffers' (appendToBuffer sock d s) = (receive_buffers' s)(sock \<mapsto> buffer_at s sock @ d)"
  "thresholds' (appendToBuffer sock d s) = thresholds' s"
  "listening (appendToBuffer sock d s) = listening s"
  "sockets (appendToBuffer sock d s) = sockets s"
  "clock (appendToBuffer sock d s) = clock s"
  "trace (appendToBuffer sock d s) = trace s"
  by (simp_all add: appendToBuffer_def)

lemma TcpServer_onReadyRead_counter [simp]:
  "next_client_id' (TcpServer_onReadyRead qt sock d s) = next_client_id' s"
  "issued_ids (trace (TcpServer_onReadyRead qt sock d s)) = issued_ids (trace s)"
  by (simp_all add: TcpServer_onReadyRead_def Let_def)

lemma onClientDisconnected_counter [simp]:
  "next_client_id' (onClientDisconnected sock s) = next_client_id' s"
  "issued_ids (trace (onClientDisconnected sock s)) = issued_ids (trace s)"
  by (simp_all add: onClientDisconnected_def Let_def)

lemma startClient_counter [simp]:
  "next_client_id' (startClient qt client_id s) = next_client_id' s"
  "issued_ids (trace (startClient qt client_id s)) = issued_ids (trace s)"
  by (simp_all add: startClient_def Let_def split: option.splits)

lemma stopClient_counter [simp]:
  "next_client_id' (stopClient qt client_id s) = next_client_id' s"
  "issued_ids (trace (stopClient qt client_id s)) = issued_ids (trace s)"
  by (simp_all add: stopClient_def Let_def split: option.splits)

lemma abort_all_counter [simp]:
  "next_client_id' (foldl (\<lambda>s sock. does (call_deleteLater sock) (TcpServer_socket_abort sock s)) s socks)
     = next_client_id' s"
  "issued_ids (trace (foldl (\<lambda>s sock. does (call_deleteLater sock) (TcpServer_socket_abort sock s)) s socks))
     = issued_ids (trace s)"
  by (induction socks arbitrary: s) simp_all

lemma stopServer_counter [simp]:
  "next_client_id' (stopServer s) = next_client_id' s"
  "issued_ids (trace (stopServer s)) = issued_ids (trace s)"
  by (simp_all add: stopServer_def Let_def)





lemma accepted_churn [simp]: "accepted (churn sock n) = n"
  by (induction n) (simp_all add: churn_def)





lemma maps_foldl_does [simp]:
  "clients' (foldl (\<lambda>s w. does (f w) s) s ws) = clients' s"
  "client_sockets' (foldl (\<lambda>s w. does (f w) s) s ws) = client_sockets' s"
  by (induction ws arbitrary: s) simp_all

lemma processClientData_maps [simp]:
  "clients' (processClientData qt client_id data s) = clients' s"
  "client_sockets' (processClientData qt client_id data s) = client_sockets' s"
  by (simp_all add: processClientData_def checkThresholds_def Let_def split: sum.splits)



































section \<open>The frame codec\<close>

























lemma foldl_processClientData_maps [simp]:
  "clients' (foldl (\<lambda>s m. processClientData qt client_id m s) s ms) = clients' s"
  "client_sockets' (foldl (\<lambda>s m. processClientData qt client_id m s) s ms) = client_sockets' s"
  "receive_buffers' (foldl (\<lambda>s m. processClientData qt client_id m s) s ms) = receive_buffers' s"
  by (induction ms arbitrary: s) simp_all






lemma received_contents_append [simp]:
  "received_contents (a @ b) = received_contents a @ received_contents b"
  by (induction a rule: received_contents.induct) simp_all

lemma received_contents_logs [simp]: "received_contents (map (\<lambda>w. sig_logMessage (f w)) ws) = []"
  by (induction ws) simp_all



lemma receive_buffer_foldl_processServerMessage [simp]:
  "receive_buffer' (foldl (\<lambda>c m. processServerMessage qt (f m) c) c ms) = receive_buffer' c"
  by (induction ms arbitrary: c) simp_all









section \<open>Framing\<close>







section \<open>The overflow guard\<close>




section \<open>Commands of the collector\<close>

text \<open>
  Claim C7. For an ID that is not registered, \<open>startClient\<close> and \<open>stopClient\<close> emit the log
  event \<open>Client <id> not found\<close> and change nothing else: no record is created or changed,
  nothing is written to a socket, no status change is signalled.
\<close>

theorem C7_unknown_id_only_logs:
  assumes "client_sockets' s client_id = None"
  shows "startClient qt client_id s
           = s\<lparr>trace := trace s @ [sig_logMessage (''Client '' @ arg_int client_id @ '' not found'')]\<rparr>
       \<and> stopClient qt client_id s
           = s\<lparr>trace := trace s @ [sig_logMessage (''Client '' @ arg_int client_id @ '' not found'')]\<rparr>"
  using assms by (simp add: startClient_def stopClient_def does_def)

theorem C7_unknown_id_witness:
  "client_sockets' TcpServer_one_client_sample 7 = None
   \<and> startClient QtLib_sample 7 TcpServer_one_client_sample
       = TcpServer_one_client_sample
           \<lparr>trace := trace TcpServer_one_client_sample @ [sig_logMessage ''Client 7 not found'']\<rparr>
   \<and> stopClient QtLib_sample 7 TcpServer_one_client_sample
       = TcpServer_one_client_sample
           \<lparr>trace := trace TcpServer_one_client_sample @ [sig_logMessage ''Client 7 not found'']\<rparr>"
proof -
  have h: "client_sockets' TcpServer_one_client_sample 7 = None"
    by (simp add: one_client_sample_fields)
  show ?thesis
    using C7_unknown_id_only_logs [OF h, of QtLib_sample] h by simp
qed

text \<open>
  Claim C10. For a registered ID, \<open>startClient\<close> sets \<open>is_running\<close> in the record of its
  socket and emits the status change and the log event, whatever the state of the socket.
  When the socket is not in the connected state, that is all it does: \<open>sendToClient\<close>
  returns at once, so nothing is written and no further event is emitted.
\<close>

theorem C10_startClient_marks_running_without_sending:
  assumes "client_sockets' s client_id = Some sock"
  shows "clients' (startClient qt client_id s) sock = Some ((client_at s sock)\<lparr>is_running := True\<rparr>)
     \<and> (\<exists>sent. trace (startClient qt client_id s)
            = trace s @ sent @ [sig_clientStatusChanged client_id True,
                                 sig_logMessage (''Started client '' @ arg_int client_id)])
     \<and> (state (sockets s sock) \<noteq> ConnectedState \<longrightarrow>
          startClient qt client_id s
            = s\<lparr>clients' := (clients' s)(sock \<mapsto> (client_at s sock)\<lparr>is_running := True\<rparr>),
                trace := trace s @ [sig_clientStatusChanged client_id True,
                                    sig_logMessage (''Started client '' @ arg_int client_id)]\<rparr>)"
  using assms
  by (auto simp add: startClient_def Let_def sendToClient_def does_def)

theorem C10_startClient_witness:
  "client_sockets' TcpServer_closed_socket_sample 1 = Some 1
   \<and> state (sockets TcpServer_closed_socket_sample 1) \<noteq> ConnectedState
   \<and> is_running (client_at (startClient QtLib_sample 1 TcpServer_closed_socket_sample) 1)
   \<and> trace (startClient QtLib_sample 1 TcpServer_closed_socket_sample)
       = trace TcpServer_closed_socket_sample
           @ [sig_clientStatusChanged 1 True, sig_logMessage ''Started client 1'']"
proof -
  have h: "client_sockets' TcpServer_closed_socket_sample 1 = Some 1"
    by (simp add: closed_socket_sample_fields)
  have n: "state (sockets TcpServer_closed_socket_sample 1) \<noteq> ConnectedState"
    unfolding closed_socket_sample_fields by simp
  from C10_startClient_marks_running_without_sending [OF h, of QtLib_sample] n
  have "startClient QtLib_sample 1 TcpServer_closed_socket_sample
          = TcpServer_closed_socket_sample
              \<lparr>clients' := (clients' TcpServer_closed_socket_sample)
                   (1 \<mapsto> (client_at TcpServer_closed_socket_sample 1)\<lparr>is_running := True\<rparr>),
               trace := trace TcpServer_closed_socket_sample
                   @ [sig_clientStatusChanged 1 True, sig_logMessage (''Started client '' @ arg_int 1)]\<rparr>"
    by blast
  then show ?thesis
    using h n by (simp add: client_at_def)
qed

section \<open>Threshold evaluation\<close>



section \<open>Client IDs\<close>





section \<open>The registry\<close>




end
